theory Spec2Isabelle
  imports Main "HOL-Library.Word"
begin

unbundle bit_operations_syntax

section \<open>Go values used by the write path\<close>

type_synonym byte = "8 word"
type_synonym uint32 = "32 word"
type_synonym uint64 = "64 word"

text \<open>
  A Go slice is a window on a backing array: \<open>Slice arr n\<close> has the array cells from the
  slice's first cell to the end of the array (so \<open>length arr\<close> is the capacity) and the
  length \<open>n\<close>. The nil slice has neither. Lengths and capacities are Go \<open>int\<close>s; they count
  cells held in memory, far below \<open>2^63\<close>, and are modelled as \<open>nat\<close>.
\<close>

datatype 'a slice = NilSlice | Slice "'a list" nat

text \<open>Run-time panics of the Go runtime: the function does not return.\<close>

datatype panic = IndexOutOfRange | SliceBoundsOutOfRange | NilDereference

fun len :: "'a slice \<Rightarrow> nat" where
  "len NilSlice = 0"
| "len (Slice arr n) = n"

fun cap :: "'a slice \<Rightarrow> nat" where
  "cap NilSlice = 0"
| "cap (Slice arr n) = length arr"

text \<open>The cells a slice shows: the first \<open>len\<close> cells of its array.\<close>

fun elems :: "'a slice \<Rightarrow> 'a list" where
  "elems NilSlice = []"
| "elems (Slice arr n) = take n arr"

text \<open>\<open>s[i]\<close> panics unless \<open>i < len(s)\<close>.\<close>

fun index :: "'a slice \<Rightarrow> nat \<Rightarrow> panic + 'a" where
  "index NilSlice i = Inl IndexOutOfRange"
| "index (Slice arr n) i = (if i < n \<and> i < length arr then Inr (arr ! i) else Inl IndexOutOfRange)"

text \<open>\<open>s[lo:]\<close> panics unless \<open>lo \<le> len(s)\<close>; \<open>nil[0:]\<close> is nil.\<close>

fun slice_from :: "'a slice \<Rightarrow> nat \<Rightarrow> panic + 'a slice" where
  "slice_from NilSlice lo = (if lo = 0 then Inr NilSlice else Inl SliceBoundsOutOfRange)"
| "slice_from (Slice arr n) lo =
     (if lo \<le> n \<and> lo \<le> length arr then Inr (Slice (drop lo arr) (n - lo))
      else Inl SliceBoundsOutOfRange)"

text \<open>
  \<open>s[:hi]\<close> is checked against the capacity, not the length: with \<open>len(s) < hi \<le> cap(s)\<close>
  it shows cells beyond the length. \<open>nil[:0]\<close> is nil.
\<close>

fun slice_to :: "'a slice \<Rightarrow> nat \<Rightarrow> panic + 'a slice" where
  "slice_to NilSlice hi = (if hi = 0 then Inr NilSlice else Inl SliceBoundsOutOfRange)"
| "slice_to (Slice arr n) hi =
     (if hi \<le> length arr then Inr (Slice arr hi) else Inl SliceBoundsOutOfRange)"

text \<open>\<open>s[:0]\<close>, which cannot panic: the length becomes 0, array and capacity stay.\<close>

fun trunc :: "'a slice \<Rightarrow> 'a slice" where
  "trunc NilSlice = NilSlice"
| "trunc (Slice arr n) = Slice arr 0"

text \<open>Writing the shown cells of a slice in place.\<close>

fun set_elems :: "'a slice \<Rightarrow> 'a list \<Rightarrow> 'a slice" where
  "set_elems NilSlice xs = NilSlice"
| "set_elems (Slice arr n) xs = Slice (xs @ drop (length xs) arr) n"

subsection \<open>Errors\<close>

text \<open>
  \<open>errors_New s\<close> is \<open>errors.New(s)\<close>; \<open>errno_NewError c e\<close> is \<open>errno.NewError(c, e)\<close>, a
  freshly allocated error of kind \<open>c\<close> around the argument \<open>e\<close> (which may be nil);
  \<open>Foreign k\<close> stands for an error made by a collaborator.
\<close>

datatype errno = ErrUnmarshalPoints

datatype error = errors_New string | errno_NewError errno "error option" | Foreign nat

subsection \<open>Rows, pools and the work object\<close>

text \<open>
  Of \<open>influx.Row\<close> the write path touches \<open>StreamOnly\<close> and \<open>StreamId\<close>; \<open>RowData\<close> stands for
  all other fields. Tags, fields and index entries are opaque.
\<close>

record Row =
  StreamOnly :: bool
  StreamId :: uint64
  RowData :: nat

record StreamVar =
  Only :: bool
  StreamVar_Id :: uint64

record IndexOption =
  IndexList :: "nat slice"
  IndexOptionData :: nat

type_synonym Tag = nat
type_synonym Field = nat

text \<open>
  \<open>storage\<close> and \<open>stream\<close> are references (\<open>None\<close> is nil); \<open>streamVars\<close> holds pointers,
  each of which may be nil. The \<open>logger\<close> field is the sink of the \<open>LoggerError\<close> events
  below.
\<close>

record WritePointsWork =
  storage :: "nat option"
  stream :: "nat option"
  reqBuf :: "byte slice"
  streamVars :: "StreamVar option slice"
  rows :: "Row slice"
  tagpools :: "Tag slice"
  fieldpools :: "Field slice"
  indexKeypools :: "byte slice"
  indexOptionpools :: "IndexOption slice"
  lastResetTime :: uint64

subsection \<open>Collaborators\<close>

text \<open>
  What the write path calls and does not define: the protocol tag
  \<open>netstorage.PackageTypeFast\<close>, the integer decoders of the \<open>encoding\<close> package, the row
  decoder \<open>influx.FastUnmarshalMultiRows\<close>, the storage engine, \<open>config.IsReplication\<close> and
  the clock reading \<open>time.Since(start).Nanoseconds()\<close>. Every result below holds for all
  of them.

  \<open>UnmarshalVarUint64s n src\<close> is the call with a destination of length \<open>n\<close>: it gives
  the values written to the destination from its first cell on, the returned tail and
  the error.
\<close>

record env =
  PackageTypeFast :: byte
  UnmarshalUint32 :: "byte slice \<Rightarrow> uint32"
  UnmarshalUint64 :: "byte slice \<Rightarrow> uint64"
  UnmarshalVarUint64s :: "nat \<Rightarrow> byte slice \<Rightarrow> uint64 list \<times> byte slice \<times> error option"
  FastUnmarshalMultiRows ::
    "byte slice \<Rightarrow> Row slice \<Rightarrow> Tag slice \<Rightarrow> Field slice \<Rightarrow> IndexOption slice \<Rightarrow> byte slice
      \<Rightarrow> Row slice \<times> Tag slice \<times> Field slice \<times> IndexOption slice \<times> byte slice \<times> error option"
  WriteRows ::
    "nat option \<Rightarrow> byte list \<Rightarrow> byte list \<Rightarrow> uint32 \<Rightarrow> uint64 \<Rightarrow> Row slice \<Rightarrow> byte slice
      \<Rightarrow> error option"
  WriteRowsToSlave ::
    "nat option \<Rightarrow> Row slice \<Rightarrow> byte list \<Rightarrow> byte list \<Rightarrow> uint32 \<Rightarrow> uint64 \<Rightarrow> error option"
  IsReplication :: bool
  sinceStart :: "64 word"

text \<open>The calls that leave the work object, in the order they are made.\<close>

datatype event =
    LoggerError_err error
  | LoggerError string "error option"
  | AtomicAdd_WriteUnmarshalNs "64 word"
  | Storage_WriteRows "nat option" "byte list" "byte list" uint32 uint64 "Row slice" "byte slice"
  | Storage_WriteRowsToSlave "nat option" "Row slice" "byte list" "byte list" uint32 uint64
  | Stream_WriteRows "nat option" "byte list" "byte list" uint32 uint64 "uint64 \<rightharpoonup> uint64" WritePointsWork

fun is_AtomicAdd :: "event \<Rightarrow> bool" where
  "is_AtomicAdd (AtomicAdd_WriteUnmarshalNs d) = True"
| "is_AtomicAdd e = False"

fun is_Storage_WriteRows :: "event \<Rightarrow> bool" where
  "is_Storage_WriteRows (Storage_WriteRows s d r p h rs b) = True"
| "is_Storage_WriteRows e = False"

fun is_WriteRowsToSlave :: "event \<Rightarrow> bool" where
  "is_WriteRowsToSlave (Storage_WriteRowsToSlave s rs d r p h) = True"
| "is_WriteRowsToSlave e = False"

fun is_Stream_WriteRows :: "event \<Rightarrow> bool" where
  "is_Stream_WriteRows (Stream_WriteRows s d r p h m w) = True"
| "is_Stream_WriteRows e = False"

section \<open>The work object pool\<close>

text \<open>
  \<open>reset\<close>. The clock \<open>fasttime.UnixTimestamp()\<close> is read twice: \<open>now\<close> in the test and
  \<open>now'\<close> in the assignment. The subtraction is on \<open>uint64\<close> and wraps.
\<close>

definition reset :: "uint64 \<Rightarrow> uint64 \<Rightarrow> WritePointsWork \<Rightarrow> WritePointsWork" where
  "reset now now' ww =
    (let ww1 =
       (if (len (reqBuf ww) * 4 > cap (reqBuf ww) \<or> len (rows ww) * 4 > cap (rows ww))
            \<and> now - lastResetTime ww > 10
        then ww\<lparr>reqBuf := NilSlice, rows := NilSlice, lastResetTime := now'\<rparr>
        else ww)
     in ww1\<lparr>tagpools := trunc (tagpools ww1),
            fieldpools := trunc (fieldpools ww1),
            indexKeypools := trunc (indexKeypools ww1),
            indexOptionpools := trunc (indexOptionpools ww1),
            storage := None,
            stream := None,
            rows := trunc (rows ww1),
            reqBuf := trunc (reqBuf ww1),
            streamVars := trunc (streamVars ww1)\<rparr>)"

text \<open>
  The two process-wide pools: \<open>writePointsWorkPool\<close> (a \<open>sync.Pool\<close>) and the buffers
  handed to \<open>bufferpool.PutPoints\<close>.
\<close>

record pools =
  writePointsWorkPool :: "WritePointsWork list"
  putPoints :: "byte slice list"

definition new_WritePointsWork :: WritePointsWork where
  "new_WritePointsWork =
    \<lparr>storage = None, stream = None, reqBuf = NilSlice, streamVars = NilSlice,
     rows = NilSlice, tagpools = NilSlice, fieldpools = NilSlice, indexKeypools = NilSlice,
     indexOptionpools = NilSlice, lastResetTime = 0\<rparr>"

text \<open>
  \<open>GetWritePointsWork\<close>. \<open>sync.Pool.Get\<close> gives any pooled object or nil: \<open>k\<close> is its choice,
  the \<open>k\<close>-th pooled object, or nil when there is none.
\<close>

definition GetWritePointsWork :: "nat \<Rightarrow> pools \<Rightarrow> WritePointsWork \<times> pools" where
  "GetWritePointsWork k g =
    (if k < length (writePointsWorkPool g)
     then (writePointsWorkPool g ! k,
           g\<lparr>writePointsWorkPool :=
               take k (writePointsWorkPool g) @ drop (Suc k) (writePointsWorkPool g)\<rparr>)
     else (new_WritePointsWork, g))"

definition PutWritePointsWork :: "uint64 \<Rightarrow> uint64 \<Rightarrow> WritePointsWork \<Rightarrow> pools \<Rightarrow> pools" where
  "PutWritePointsWork now now' ww g =
    g\<lparr>putPoints := putPoints g @ [reqBuf ww],
      writePointsWorkPool := reset now now' ww # writePointsWorkPool g\<rparr>"

section \<open>Decoding a request\<close>

text \<open>The named results of \<open>decodePoints\<close>; a \<open>return\<close> gives what they hold then.\<close>

record decoded =
  db :: "byte list"
  rp :: "byte list"
  ptId :: uint32
  shard :: uint64
  streamShardIdList :: "uint64 slice"
  binaryRows :: "byte slice"
  err :: "error option"

definition no_result :: decoded where
  "no_result = \<lparr>db = [], rp = [], ptId = 0, shard = 0, streamShardIdList = NilSlice,
                 binaryRows = NilSlice, err = None\<rparr>"

text \<open>\<open>err = errors.New(msg); ww.logger.Error(err.Error()); return\<close>\<close>

definition return_error :: "decoded \<Rightarrow> string \<Rightarrow> panic + decoded \<times> event list" where
  "return_error r msg = Inr (r\<lparr>err := Some (errors_New msg)\<rparr>, [LoggerError_err (errors_New msg)])"

text \<open>\<open>make([]uint64, n)\<close> after the decoder has written \<open>vs\<close> from the first cell on.\<close>

definition made_uint64s :: "nat \<Rightarrow> uint64 list \<Rightarrow> uint64 slice" where
  "made_uint64s n vs = Slice (take n (vs @ replicate (n - length vs) 0)) n"

text \<open>Sequencing: a panic ends the run.\<close>

definition or_panic :: "panic + 'a \<Rightarrow> ('a \<Rightarrow> panic + 'b) \<Rightarrow> panic + 'b" where
  "or_panic m f = (case m of Inl p \<Rightarrow> Inl p | Inr x \<Rightarrow> f x)"

text \<open>The frame part of \<open>decodePoints\<close>, up to \<open>binaryRows = tail\<close>.\<close>

definition decodePoints_frame :: "env \<Rightarrow> byte slice \<Rightarrow> panic + decoded \<times> event list" where
  "decodePoints_frame env buf =
    (if len buf < 2 then return_error no_result ''invalid points buffer''
     else or_panic (index buf 0) (\<lambda>ty.
     if ty \<noteq> PackageTypeFast env then return_error no_result ''not a fast marshal points package''
     else or_panic (slice_from buf 1) (\<lambda>tail1.
     or_panic (index tail1 0) (\<lambda>l1.
     if len tail1 < unat l1 then return_error no_result ''no data for db name''
     else or_panic (slice_from tail1 1) (\<lambda>tail2.
     or_panic (slice_to tail2 (unat l1)) (\<lambda>dbs.
     or_panic (slice_from tail2 (unat l1)) (\<lambda>tail3.
     or_panic (index tail3 0) (\<lambda>l2.
     if len tail3 < unat l2 then return_error (no_result\<lparr>db := elems dbs\<rparr>) ''no data for rp name''
     else or_panic (slice_from tail3 1) (\<lambda>tail4.
     or_panic (slice_to tail4 (unat l2)) (\<lambda>rps.
     or_panic (slice_from tail4 (unat l2)) (\<lambda>tail5.
     if len tail5 < 16
     then return_error (no_result\<lparr>db := elems dbs, rp := elems rps\<rparr>) ''no data for points data''
     else or_panic (slice_from tail5 4) (\<lambda>tail6.
     or_panic (slice_from tail6 8) (\<lambda>tail7.
     or_panic (slice_from tail7 4) (\<lambda>tail8.
     (case UnmarshalVarUint64s env (unat (UnmarshalUint32 env tail7)) tail8 of
        (vs, tail9, e) \<Rightarrow>
          Inr (no_result\<lparr>db := elems dbs, rp := elems rps,
                 ptId := UnmarshalUint32 env tail5, shard := UnmarshalUint64 env tail6,
                 streamShardIdList := made_uint64s (unat (UnmarshalUint32 env tail7)) vs,
                 binaryRows := (if e = None then tail9 else NilSlice),
                 err := e\<rparr>,
               (case e of Some e' \<Rightarrow> [LoggerError_err e'] | None \<Rightarrow> [])))))))))))))))))"

text \<open>
  The loop \<open>for i := range ww.indexOptionpools\<close>: each shown entry gets its \<open>IndexList\<close>
  cut to length 0.
\<close>

definition clear_IndexLists :: "IndexOption slice \<Rightarrow> IndexOption slice" where
  "clear_IndexLists s = set_elems s (map (\<lambda>io. io\<lparr>IndexList := trunc (IndexList io)\<rparr>) (elems s))"

text \<open>
  The loop \<open>for i := 0; i < len(ww.rows); i++\<close> over the shown rows \<open>rs\<close> and the shown
  stream variables \<open>vs\<close>: \<open>ww.streamVars[i]\<close> panics beyond the length, and reading a field
  through a nil pointer panics.
\<close>

fun set_stream_vars :: "Row list \<Rightarrow> StreamVar option list \<Rightarrow> panic + Row list" where
  "set_stream_vars [] vs = Inr []"
| "set_stream_vars (r # rs) [] = Inl IndexOutOfRange"
| "set_stream_vars (r # rs) (None # vs) = Inl NilDereference"
| "set_stream_vars (r # rs) (Some v # vs) =
     (case set_stream_vars rs vs of
        Inl p \<Rightarrow> Inl p
      | Inr rs' \<Rightarrow> Inr (r\<lparr>StreamOnly := Only v, StreamId := StreamVar_Id v\<rparr> # rs'))"

definition routing_mismatch :: string where
  "routing_mismatch = ''unmarshal rows failed, the num of the rows is not equal to the stream vars''"

definition decodePoints ::
  "env \<Rightarrow> WritePointsWork \<Rightarrow> panic + decoded \<times> WritePointsWork \<times> event list" where
  "decodePoints env ww =
    (case decodePoints_frame env (reqBuf ww) of
       Inl p \<Rightarrow> Inl p
     | Inr (r, log) \<Rightarrow>
       if err r \<noteq> None then Inr (r, ww, log)
       else
        (case FastUnmarshalMultiRows env (binaryRows r) (trunc (rows ww)) (trunc (tagpools ww))
                (trunc (fieldpools ww)) (trunc (clear_IndexLists (indexOptionpools ww)))
                (trunc (indexKeypools ww)) of
           (rows', tagpools', fieldpools', indexOptionpools', indexKeypools', e) \<Rightarrow>
           let ww1 = ww\<lparr>rows := rows', tagpools := tagpools', fieldpools := fieldpools',
                        indexOptionpools := indexOptionpools', indexKeypools := indexKeypools'\<rparr>
           in if e \<noteq> None
              then Inr (r\<lparr>err := e\<rparr>, ww1, log @ [LoggerError ''unmarshal rows failed'' e])
              else if len (streamShardIdList r) > 0
              then
               (if len rows' \<noteq> len (streamVars ww1)
                then Inr (r\<lparr>err := Some (errors_New routing_mismatch)\<rparr>, ww1,
                          log @ [LoggerError routing_mismatch None])
                else case set_stream_vars (elems rows') (elems (streamVars ww1)) of
                       Inl p \<Rightarrow> Inl p
                     | Inr rs \<Rightarrow>
                         Inr (r, ww1\<lparr>rows := set_elems rows' rs\<rparr>,
                              log @ [AtomicAdd_WriteUnmarshalNs (sinceStart env)]))
              else Inr (r, ww1, log @ [AtomicAdd_WriteUnmarshalNs (sinceStart env)])))"

section \<open>Dispatch\<close>

definition WritePoints ::
  "env \<Rightarrow> WritePointsWork \<Rightarrow> panic + error option \<times> WritePointsWork \<times> event list" where
  "WritePoints env ww =
    or_panic (decodePoints env ww) (\<lambda>(r, ww1, tr).
      if err r \<noteq> None
      then Inr (Some (errno_NewError ErrUnmarshalPoints (err r)), ww1,
                tr @ [LoggerError ''unmarshal rows failed''
                        (Some (errno_NewError ErrUnmarshalPoints (err r)))])
      else
        let e = WriteRows env (storage ww1) (db r) (rp r) (ptId r) (shard r) (rows ww1)
                  (binaryRows r);
            tr1 = tr @ [Storage_WriteRows (storage ww1) (db r) (rp r) (ptId r) (shard r)
                          (rows ww1) (binaryRows r)]
                     @ (if e \<noteq> None then [LoggerError ''write rows failed'' e] else [])
        in if e = None \<and> IsReplication env
           then Inr (WriteRowsToSlave env (storage ww1) (rows ww1) (db r) (rp r) (ptId r) (shard r),
                     ww1,
                     tr1 @ [Storage_WriteRowsToSlave (storage ww1) (rows ww1) (db r) (rp r)
                              (ptId r) (shard r)])
           else Inr (e, ww1, tr1))"

text \<open>
  The loop \<open>for i := 0; i < len(streamShardIdList); i += 2\<close> over the shown cells from
  \<open>i\<close> on: \<open>streamShardIdList[i+1]\<close> panics when one cell is left.
\<close>

fun streamIdDstShardIdMap :: "(uint64 \<rightharpoonup> uint64) \<Rightarrow> uint64 list \<Rightarrow> panic + (uint64 \<rightharpoonup> uint64)" where
  "streamIdDstShardIdMap m [] = Inr m"
| "streamIdDstShardIdMap m [a] = Inl IndexOutOfRange"
| "streamIdDstShardIdMap m (a # b # xs) = streamIdDstShardIdMap (m(a \<mapsto> b)) xs"

definition WriteStreamPoints ::
  "env \<Rightarrow> WritePointsWork \<Rightarrow> panic + (error option \<times> bool) \<times> WritePointsWork \<times> event list" where
  "WriteStreamPoints env ww =
    or_panic (decodePoints env ww) (\<lambda>(r, ww1, tr).
      if err r \<noteq> None
      then Inr ((Some (errno_NewError ErrUnmarshalPoints (err r)), False), ww1,
                tr @ [LoggerError ''unmarshal rows failed''
                        (Some (errno_NewError ErrUnmarshalPoints (err r)))])
      else
        let e = WriteRows env (storage ww1) (db r) (rp r) (ptId r) (shard r) (rows ww1)
                  (binaryRows r);
            tr1 = tr @ [Storage_WriteRows (storage ww1) (db r) (rp r) (ptId r) (shard r)
                          (rows ww1) (binaryRows r)]
                     @ (if e \<noteq> None then [LoggerError ''write rows failed'' e] else [])
        in if stream ww1 = None \<or> len (streamShardIdList r) = 0
           then Inr ((e, False), ww1, tr1)
           else if len (streamShardIdList r) mod 2 \<noteq> 0
           then Inr ((Some (errno_NewError ErrUnmarshalPoints e), False), ww1, tr1)
           else or_panic (streamIdDstShardIdMap Map.empty (elems (streamShardIdList r))) (\<lambda>m.
             if e = None \<and> len (streamShardIdList r) > 0
             then Inr ((e, True), ww1,
                       tr1 @ [Stream_WriteRows (stream ww1) (db r) (rp r) (ptId r) (shard r) m ww1])
             else Inr ((e, False), ww1, tr1)))"

section \<open>The frame layout, sender side\<close>

text \<open>
  Modelled from the spec: the sender's encoder of the frame header and the integer
  encoders it uses are not in the sources. The layout is the one of the wire format
  table: tag, one length byte and the database name, one length byte and the retention
  policy name, partition id (4 bytes), shard id (8 bytes), the count of stream-shard
  ids (4 bytes), the ids as variable-length integers. The integer encoders are
  parameters.
\<close>

record marshal =
  MarshalUint32 :: "uint32 \<Rightarrow> byte list"
  MarshalUint64 :: "uint64 \<Rightarrow> byte list"
  MarshalVarUint64s :: "uint64 list \<Rightarrow> byte list"

definition encode_header ::
  "marshal \<Rightarrow> byte \<Rightarrow> byte list \<Rightarrow> byte list \<Rightarrow> uint32 \<Rightarrow> uint64 \<Rightarrow> uint64 list \<Rightarrow> byte list" where
  "encode_header mar tag dbn rpn pt sh ids =
     tag # of_nat (length dbn) # dbn @ of_nat (length rpn) # rpn
       @ MarshalUint32 mar pt @ MarshalUint64 mar sh
       @ MarshalUint32 mar (of_nat (length ids)) @ MarshalVarUint64s mar ids"

text \<open>
  The decoders of \<open>env\<close> undo the encoders of \<open>mar\<close>: a fixed-width decoder reads the
  value back from the front of any slice that starts with its encoding, and the
  variable-length decoder reads the list back and returns the rest of the slice.
\<close>

definition inverse_codecs :: "env \<Rightarrow> marshal \<Rightarrow> bool" where
  "inverse_codecs env mar \<longleftrightarrow>
     (\<forall>v. length (MarshalUint32 mar v) = 4) \<and>
     (\<forall>v. length (MarshalUint64 mar v) = 8) \<and>
     (\<forall>v rest n. 4 \<le> n \<longrightarrow> n \<le> 4 + length rest \<longrightarrow>
        UnmarshalUint32 env (Slice (MarshalUint32 mar v @ rest) n) = v) \<and>
     (\<forall>v rest n. 8 \<le> n \<longrightarrow> n \<le> 8 + length rest \<longrightarrow>
        UnmarshalUint64 env (Slice (MarshalUint64 mar v @ rest) n) = v) \<and>
     (\<forall>ids rest n. length (MarshalVarUint64s mar ids) \<le> n \<longrightarrow>
        n \<le> length (MarshalVarUint64s mar ids) + length rest \<longrightarrow>
        UnmarshalVarUint64s env (length ids) (Slice (MarshalVarUint64s mar ids @ rest) n)
          = (ids, Slice rest (n - length (MarshalVarUint64s mar ids)), None))"

section \<open>An instance of the collaborators\<close>

text \<open>
  One concrete choice of everything the write path leaves open, to run it on concrete
  requests: tag 1, big-endian fixed-width integers, base-128 variable-length integers
  (seven bits a byte, low group first, high bit set on all but the last byte), a row
  decoder that makes one row of each payload byte, a storage engine that accepts every
  write, replication off.
\<close>

definition be_decode :: "byte list \<Rightarrow> 'a::len word" where
  "be_decode bs = foldl (\<lambda>acc b. push_bit 8 acc OR ucast b) 0 bs"

definition be_encode :: "nat \<Rightarrow> 'a::len word \<Rightarrow> byte list" where
  "be_encode k v = map (\<lambda>i. ucast (drop_bit (8 * i) v)) (rev [0..<k])"

function put_uvarint :: "uint64 \<Rightarrow> byte list" where
  "put_uvarint v =
     (if v < 0x80 then [ucast v] else (ucast (v AND 0x7f) OR 0x80) # put_uvarint (drop_bit 7 v))"
  by pat_completeness auto
termination
proof (relation "measure unat")
  show "wf (measure (unat :: uint64 \<Rightarrow> nat))" by simp
next
  fix v :: uint64
  assume "\<not> v < 0x80"
  then have "128 \<le> unat v"
    by (simp add: word_less_nat_alt not_less)
  then have "unat v div 2 ^ 7 < unat v"
    by simp
  then show "(drop_bit 7 v, v) \<in> measure unat"
    by (simp add: drop_bit_eq_div unat_div)
qed

declare put_uvarint.simps [simp del]

fun get_uvarint :: "byte list \<Rightarrow> (uint64 \<times> byte list) option" where
  "get_uvarint [] = None"
| "get_uvarint (c # cs) =
     (if c < 0x80 then Some (ucast c, cs)
      else case get_uvarint cs of
             None \<Rightarrow> None
           | Some (v, rest) \<Rightarrow> Some (ucast (c AND 0x7f) OR push_bit 7 v, rest))"

fun get_uvarints :: "nat \<Rightarrow> byte list \<Rightarrow> (uint64 list \<times> byte list) option" where
  "get_uvarints 0 bs = Some ([], bs)"
| "get_uvarints (Suc n) bs =
     (case get_uvarint bs of
        None \<Rightarrow> None
      | Some (v, rest) \<Rightarrow>
          (case get_uvarints n rest of
             None \<Rightarrow> None
           | Some (vs, rest') \<Rightarrow> Some (v # vs, rest')))"

definition example_UnmarshalVarUint64s ::
  "nat \<Rightarrow> byte slice \<Rightarrow> uint64 list \<times> byte slice \<times> error option" where
  "example_UnmarshalVarUint64s n src =
     (case get_uvarints n (elems src) of
        None \<Rightarrow> ([], NilSlice, Some (Foreign 0))
      | Some (vs, rest) \<Rightarrow>
          (case slice_from src (len src - length rest) of
             Inl p \<Rightarrow> ([], NilSlice, Some (Foreign 0))
           | Inr tail \<Rightarrow> (vs, tail, None)))"

definition example_FastUnmarshalMultiRows ::
  "byte slice \<Rightarrow> Row slice \<Rightarrow> Tag slice \<Rightarrow> Field slice \<Rightarrow> IndexOption slice \<Rightarrow> byte slice
    \<Rightarrow> Row slice \<times> Tag slice \<times> Field slice \<times> IndexOption slice \<times> byte slice \<times> error option" where
  "example_FastUnmarshalMultiRows src rs tags flds ios keys =
     (Slice (map (\<lambda>b. \<lparr>StreamOnly = False, StreamId = 0, RowData = unat b\<rparr>) (elems src))
        (length (elems src)),
      tags, flds, ios, keys, None)"

definition example_env :: env where
  "example_env =
    \<lparr>PackageTypeFast = 1,
     UnmarshalUint32 = (\<lambda>s. be_decode (take 4 (elems s))),
     UnmarshalUint64 = (\<lambda>s. be_decode (take 8 (elems s))),
     UnmarshalVarUint64s = example_UnmarshalVarUint64s,
     FastUnmarshalMultiRows = example_FastUnmarshalMultiRows,
     WriteRows = (\<lambda>st dbn rpn pt sh rs bin. None),
     WriteRowsToSlave = (\<lambda>st rs dbn rpn pt sh. None),
     IsReplication = False,
     sinceStart = 1000\<rparr>"

definition example_marshal :: marshal where
  "example_marshal =
    \<lparr>MarshalUint32 = be_encode 4,
     MarshalUint64 = be_encode 8,
     MarshalVarUint64s = (\<lambda>ids. concat (map put_uvarint ids))\<rparr>"

text \<open>A work object as \<open>GetWritePointsWork\<close> makes it, holding the request \<open>bs\<close>.\<close>

definition work_with :: "byte list \<Rightarrow> WritePointsWork" where
  "work_with bs = new_WritePointsWork\<lparr>reqBuf := Slice bs (length bs), storage := Some 0\<rparr>"

text \<open>
  Requests for the instance. \<open>example_frame\<close>: database \<open>db\<close>, retention policy \<open>rp\<close>,
  partition 7, shard 42, no stream-shard ids, a payload of one byte. \<open>example_odd_frame\<close>:
  the same header with the single stream-shard id 5 and no payload.
  \<open>example_pair_frame\<close>: the same header with the ids 5 and 300 and a payload of one byte.
\<close>

definition example_frame :: "byte list" where
  "example_frame =
     [1, 2, 0x64, 0x62, 2, 0x72, 0x70, 0, 0, 0, 7, 0, 0, 0, 0, 0, 0, 0, 42, 0, 0, 0, 0, 9]"

definition example_odd_frame :: "byte list" where
  "example_odd_frame =
     [1, 2, 0x64, 0x62, 2, 0x72, 0x70, 0, 0, 0, 7, 0, 0, 0, 0, 0, 0, 0, 42, 0, 0, 0, 1, 5]"

definition example_pair_frame :: "byte list" where
  "example_pair_frame =
     [1, 2, 0x64, 0x62, 2, 0x72, 0x70, 0, 0, 0, 7, 0, 0, 0, 0, 0, 0, 0, 42, 0, 0, 0, 2,
      5, 0xAC, 2, 9]"

definition example_decoded :: decoded where
  "example_decoded =
     \<lparr>db = [0x64, 0x62], rp = [0x72, 0x70], ptId = 7, shard = 42,
      streamShardIdList = Slice [] 0, binaryRows = Slice [9] 1, err = None\<rparr>"

definition example_row :: Row where
  "example_row = \<lparr>StreamOnly = False, StreamId = 0, RowData = 9\<rparr>"

text \<open>
  \<open>example_noncanonical_frame\<close>: the header of \<open>example_odd_frame\<close> with the single
  stream-shard id 0 written in two bytes (\<open>80 00\<close>), and no payload.
\<close>

definition example_noncanonical_frame :: "byte list" where
  "example_noncanonical_frame =
     [1, 2, 0x64, 0x62, 2, 0x72, 0x70, 0, 0, 0, 7, 0, 0, 0, 0, 0, 0, 0, 42, 0, 0, 0, 1,
      0x80, 0]"

definition example_noncanonical_decoded :: decoded where
  "example_noncanonical_decoded =
     \<lparr>db = [0x64, 0x62], rp = [0x72, 0x70], ptId = 7, shard = 42,
      streamShardIdList = Slice [0] 1, binaryRows = Slice [] 0, err = None\<rparr>"

text \<open>
  The instance with replication on and a replica that refuses every write; a work
  object with a stream engine attached and one stream variable.
\<close>

definition example_replica_env :: env where
  "example_replica_env =
     example_env\<lparr>IsReplication := True,
                  WriteRowsToSlave := (\<lambda>st rs dbn rpn pt sh. Some (Foreign 7))\<rparr>"

definition example_stream_work :: "byte list \<Rightarrow> WritePointsWork" where
  "example_stream_work bs =
     (work_with bs)\<lparr>stream := Some 0,
                    streamVars := Slice [Some \<lparr>Only = True, StreamVar_Id = 5\<rparr>] 1\<rparr>"

definition example_pair_decoded :: decoded where
  "example_pair_decoded =
     \<lparr>db = [0x64, 0x62], rp = [0x72, 0x70], ptId = 7, shard = 42,
      streamShardIdList = Slice [5, 300] 2, binaryRows = Slice [9] 1, err = None\<rparr>"

definition example_odd_decoded :: decoded where
  "example_odd_decoded =
     \<lparr>db = [0x64, 0x62], rp = [0x72, 0x70], ptId = 7, shard = 42,
      streamShardIdList = Slice [5] 1, binaryRows = Slice [] 0, err = None\<rparr>"

text \<open>
  What a work object shows when nothing of a request is left in it: every pool, the
  request buffer and the stream variables have length 0 and the two references are nil.
\<close>

definition cleared :: "WritePointsWork \<Rightarrow> bool" where
  "cleared ww \<longleftrightarrow>
     len (rows ww) = 0 \<and> len (tagpools ww) = 0 \<and> len (fieldpools ww) = 0
     \<and> len (indexKeypools ww) = 0 \<and> len (indexOptionpools ww) = 0
     \<and> len (streamVars ww) = 0 \<and> len (reqBuf ww) = 0
     \<and> storage ww = None \<and> stream ww = None"

text \<open>
  The pools at program start, and three work objects: one whose request buffer has
  length 1 and capacity 4; one whose request buffer is full (length 1, capacity 1) while
  its rows have length 1 and capacity 8; and the work object left by decoding
  \<open>example_frame\<close>.
\<close>

definition empty_pools :: pools where
  "empty_pools = \<lparr>writePointsWorkPool = [], putPoints = []\<rparr>"

definition example_grown_work :: WritePointsWork where
  "example_grown_work = new_WritePointsWork\<lparr>reqBuf := Slice [1, 0, 0, 0] 1\<rparr>"

definition example_mixed_work :: WritePointsWork where
  "example_mixed_work =
     new_WritePointsWork\<lparr>reqBuf := Slice [1] 1, rows := Slice (replicate 8 example_row) 1\<rparr>"

definition example_used_work :: WritePointsWork where
  "example_used_work = (work_with example_frame)\<lparr>rows := Slice [example_row] 1\<rparr>"

text \<open>A slice as Go makes them: the length is within the capacity.\<close>

definition proper :: "'a slice \<Rightarrow> bool" where
  "proper s \<longleftrightarrow> len s \<le> cap s"

section \<open>Facts about the decoder\<close>

lemma decodePoints_frame_log:
  "decodePoints_frame env buf = Inr (r, log) \<Longrightarrow>
     list_all (\<lambda>e. \<not> is_AtomicAdd e \<and> \<not> is_Storage_WriteRows e \<and> \<not> is_WriteRowsToSlave e
                    \<and> \<not> is_Stream_WriteRows e) log"
  by (auto simp: decodePoints_frame_def or_panic_def return_error_def
           split: if_splits sum.splits prod.splits option.splits)

lemma decodePoints_frame_list_length:
  "decodePoints_frame env buf = Inr (r, log) \<Longrightarrow>
     length (elems (streamShardIdList r)) = len (streamShardIdList r)"
  by (auto simp: decodePoints_frame_def or_panic_def return_error_def no_result_def made_uint64s_def
           split: if_splits sum.splits prod.splits option.splits)

lemma decodePoints_frame_of:
  "decodePoints env ww = Inr (r, ww1, tr) \<Longrightarrow>
     \<exists>r0 log. decodePoints_frame env (reqBuf ww) = Inr (r0, log)
        \<and> streamShardIdList r = streamShardIdList r0"
  by (auto simp: decodePoints_def Let_def split: if_splits sum.splits prod.splits option.splits)

lemma decodePoints_list_length:
  "decodePoints env ww = Inr (r, ww1, tr) \<Longrightarrow>
     length (elems (streamShardIdList r)) = len (streamShardIdList r)"
  by (auto dest!: decodePoints_frame_of decodePoints_frame_list_length)

lemma decodePoints_keeps:
  "decodePoints env ww = Inr (r, ww1, tr) \<Longrightarrow>
     storage ww1 = storage ww \<and> stream ww1 = stream ww \<and> reqBuf ww1 = reqBuf ww
       \<and> streamVars ww1 = streamVars ww \<and> lastResetTime ww1 = lastResetTime ww"
  by (auto simp: decodePoints_def Let_def split: if_splits sum.splits prod.splits option.splits)

lemma decodePoints_trace_local:
  "decodePoints env ww = Inr (r, ww1, tr) \<Longrightarrow>
     list_all (\<lambda>e. \<not> is_Storage_WriteRows e \<and> \<not> is_WriteRowsToSlave e
                    \<and> \<not> is_Stream_WriteRows e) tr"
  by (auto simp: decodePoints_def Let_def list_all_iff dest!: decodePoints_frame_log
           split: if_splits sum.splits prod.splits option.splits)

lemma dispatch_panics_with_decodePoints:
  "decodePoints env ww = Inl p \<Longrightarrow>
     WritePoints env ww = Inl p \<and> WriteStreamPoints env ww = Inl p"
  by (simp add: WritePoints_def WriteStreamPoints_def or_panic_def)

lemma streamIdDstShardIdMap_even:
  "even (length xs) \<Longrightarrow> \<exists>m'. streamIdDstShardIdMap m xs = Inr m'"
  by (induction m xs rule: streamIdDstShardIdMap.induct) auto

lemma example_decodePoints:
  "decodePoints example_env (work_with example_frame) =
     Inr (example_decoded, (work_with example_frame)\<lparr>rows := Slice [example_row] 1\<rparr>,
          [AtomicAdd_WriteUnmarshalNs 1000])"
  by code_simp

lemma example_replica_decodePoints:
  "decodePoints example_replica_env (work_with example_frame) =
     Inr (example_decoded, (work_with example_frame)\<lparr>rows := Slice [example_row] 1\<rparr>,
          [AtomicAdd_WriteUnmarshalNs 1000])"
  by code_simp

lemma example_pair_decodePoints:
  "decodePoints example_env (example_stream_work example_pair_frame) =
     Inr (example_pair_decoded,
          (example_stream_work example_pair_frame)
            \<lparr>rows := Slice [\<lparr>StreamOnly = True, StreamId = 5, RowData = 9\<rparr>] 1\<rparr>,
          [AtomicAdd_WriteUnmarshalNs 1000])"
  by code_simp

lemma example_odd_decodePoints:
  "decodePoints example_env (work_with example_odd_frame) =
     Inr (example_odd_decoded, (work_with example_odd_frame)\<lparr>rows := Slice [] 0\<rparr>,
          [AtomicAdd_WriteUnmarshalNs 1000])"
  by code_simp

lemma example_odd_stream_decodePoints:
  "decodePoints example_env ((work_with example_odd_frame)\<lparr>stream := Some 0\<rparr>) =
     Inr (example_odd_decoded,
          (work_with example_odd_frame)\<lparr>stream := Some 0, rows := Slice [] 0\<rparr>,
          [AtomicAdd_WriteUnmarshalNs 1000])"
  by code_simp

lemma example_pair_frame_decoded:
  "decodePoints_frame example_env (reqBuf (work_with example_pair_frame))
     = Inr (example_pair_decoded, [])"
  by code_simp

section \<open>The frame parser on short buffers\<close>

text \<open>
  C1. The claim: a buffer that is too short at some parse step makes \<open>decodePoints\<close>
  return the error of that step, and nothing is read past the end of the buffer. The
  code does not do this. It compares \<open>len(tail)\<close> with the name length while \<open>tail\<close> still
  holds the length byte, so a buffer that ends one byte short of the database name passes
  the test: with the request \<open>[tag, 1]\<close>, whatever lies in the spare capacity, \<open>tail[:l]\<close>
  reaches past the length and the run ends in a slice-bounds panic instead of the error
  \<open>no data for db name\<close>. And no test guards the length byte of the retention policy
  name: with the request \<open>[tag, 0]\<close> the read \<open>tail[0]\<close> panics.
\<close>

theorem decodePoints_short_name_panics:
  "decodePoints env (ww\<lparr>reqBuf := Slice (PackageTypeFast env # 1 # spare) 2\<rparr>)
     = Inl SliceBoundsOutOfRange
   \<and> decodePoints env (ww\<lparr>reqBuf := Slice (PackageTypeFast env # 0 # spare) 2\<rparr>)
     = Inl IndexOutOfRange"
  by (simp add: decodePoints_def decodePoints_frame_def or_panic_def)

section \<open>The protocol tag\<close>

text \<open>
  C8. A buffer whose first byte is not the protocol tag is rejected whatever follows:
  \<open>decodePoints\<close> returns an error, which is \<open>not a fast marshal points package\<close> when
  the buffer has at least two bytes (and \<open>invalid points buffer\<close> when it has one).
  Nothing else happens: no result is set, the work object is as it was, and the only
  call made is the one log entry.
\<close>

theorem decodePoints_rejects_other_tag:
  assumes "index (reqBuf ww) 0 = Inr ty" and "ty \<noteq> PackageTypeFast env"
  shows "decodePoints env ww =
     Inr (no_result\<lparr>err := Some (errors_New
                (if len (reqBuf ww) < 2 then ''invalid points buffer''
                 else ''not a fast marshal points package''))\<rparr>,
          ww,
          [LoggerError_err (errors_New
                (if len (reqBuf ww) < 2 then ''invalid points buffer''
                 else ''not a fast marshal points package''))])"
  using assms
  by (simp add: decodePoints_def decodePoints_frame_def or_panic_def return_error_def
        no_result_def)

theorem decodePoints_rejects_other_tag_witness:
  "index (reqBuf (work_with [2, 0, 0])) 0 = Inr 2 \<and> 2 \<noteq> PackageTypeFast example_env \<and>
   decodePoints example_env (work_with [2, 0, 0]) =
     Inr (no_result\<lparr>err := Some (errors_New ''not a fast marshal points package'')\<rparr>,
          work_with [2, 0, 0],
          [LoggerError_err (errors_New ''not a fast marshal points package'')])"
proof -
  have h1: "index (reqBuf (work_with [2, 0, 0])) 0 = Inr 2"
    by (simp add: work_with_def)
  have h2: "2 \<noteq> PackageTypeFast example_env"
    by (simp add: example_env_def)
  show ?thesis
    using decodePoints_rejects_other_tag [OF h1 h2] h1 h2
    by (simp add: work_with_def)
qed

section \<open>The decode-latency counter\<close>

text \<open>
  C10. Whenever \<open>decodePoints\<close> returns, it has added to the counter
  \<open>WriteUnmarshalNs\<close> exactly once if it returns no error, and not at all if it returns
  an error; the one addition is the time elapsed since the start of the call.
\<close>

theorem decodePoints_adds_once_on_success:
  assumes "decodePoints env ww = Inr (r, ww', tr)"
  shows "filter is_AtomicAdd tr =
           (if err r = None then [AtomicAdd_WriteUnmarshalNs (sinceStart env)] else [])"
  using assms
  by (auto simp: decodePoints_def Let_def list_all_iff dest!: decodePoints_frame_log
           split: if_splits sum.splits prod.splits option.splits)

theorem decodePoints_adds_once_on_success_witness:
  "decodePoints example_env (work_with example_frame) =
     Inr (example_decoded, (work_with example_frame)\<lparr>rows := Slice [example_row] 1\<rparr>,
          [AtomicAdd_WriteUnmarshalNs 1000])
   \<and> filter is_AtomicAdd [AtomicAdd_WriteUnmarshalNs 1000] = [AtomicAdd_WriteUnmarshalNs 1000]"
  using decodePoints_adds_once_on_success [OF example_decodePoints] example_decodePoints
  by simp

section \<open>Dispatch to the storage engine, the replica and the stream engine\<close>

text \<open>
  C2, as amended. The row count is compared with the stream variables only when the
  frame carries stream-shard ids. When the frame parses, its stream-shard id list is
  not empty, the row decoder succeeds and gives a number of rows different from the
  number of stream variables, then \<open>WritePoints\<close> and \<open>WriteStreamPoints\<close> both return
  the routing-mismatch error wrapped in the unmarshal-points kind, without calling the
  storage engine's \<open>WriteRows\<close> (nor the stream engine).
\<close>

theorem routing_mismatch_fails_before_write:
  assumes "decodePoints_frame env (reqBuf ww) = Inr (r, log)"
    and "err r = None"
    and "0 < len (streamShardIdList r)"
    and "FastUnmarshalMultiRows env (binaryRows r) (trunc (rows ww)) (trunc (tagpools ww))
           (trunc (fieldpools ww)) (trunc (clear_IndexLists (indexOptionpools ww)))
           (trunc (indexKeypools ww)) = (rows', tp, fp, iop, ikp, None)"
    and "len rows' \<noteq> len (streamVars ww)"
  shows "(\<exists>ww' tr. WritePoints env ww =
             Inr (Some (errno_NewError ErrUnmarshalPoints (Some (errors_New routing_mismatch))),
                  ww', tr)
           \<and> \<not> list_ex is_Storage_WriteRows tr)
       \<and> (\<exists>ww' tr. WriteStreamPoints env ww =
             Inr ((Some (errno_NewError ErrUnmarshalPoints (Some (errors_New routing_mismatch))),
                   False), ww', tr)
           \<and> \<not> list_ex is_Storage_WriteRows tr \<and> \<not> list_ex is_Stream_WriteRows tr)"
proof -
  have d: "decodePoints env ww =
      Inr (r\<lparr>err := Some (errors_New routing_mismatch)\<rparr>,
           ww\<lparr>rows := rows', tagpools := tp, fieldpools := fp, indexOptionpools := iop,
              indexKeypools := ikp\<rparr>,
           log @ [LoggerError routing_mismatch None])"
    using assms by (simp add: decodePoints_def Let_def)
  have q: "list_all (\<lambda>e. \<not> is_Storage_WriteRows e \<and> \<not> is_Stream_WriteRows e) log"
    using decodePoints_frame_log [OF assms(1)] by (auto simp: list_all_iff)
  show ?thesis
    using q
    by (simp add: WritePoints_def WriteStreamPoints_def or_panic_def d list_ex_iff list_all_iff)
qed

theorem routing_mismatch_fails_before_write_witness:
  "(\<exists>ww' tr. WritePoints example_env (work_with example_pair_frame) =
             Inr (Some (errno_NewError ErrUnmarshalPoints (Some (errors_New routing_mismatch))),
                  ww', tr)
           \<and> \<not> list_ex is_Storage_WriteRows tr)
   \<and> (\<exists>ww' tr. WriteStreamPoints example_env (work_with example_pair_frame) =
             Inr ((Some (errno_NewError ErrUnmarshalPoints (Some (errors_New routing_mismatch))),
                   False), ww', tr)
           \<and> \<not> list_ex is_Storage_WriteRows tr \<and> \<not> list_ex is_Stream_WriteRows tr)"
proof -
  have h2: "err example_pair_decoded = None"
    by (simp add: example_pair_decoded_def)
  have h3: "0 < len (streamShardIdList example_pair_decoded)"
    by (simp add: example_pair_decoded_def)
  have h4: "FastUnmarshalMultiRows example_env (binaryRows example_pair_decoded)
           (trunc (rows (work_with example_pair_frame)))
           (trunc (tagpools (work_with example_pair_frame)))
           (trunc (fieldpools (work_with example_pair_frame)))
           (trunc (clear_IndexLists (indexOptionpools (work_with example_pair_frame))))
           (trunc (indexKeypools (work_with example_pair_frame)))
         = (Slice [example_row] 1, NilSlice, NilSlice, NilSlice, NilSlice, None)"
    by (simp add: example_env_def example_FastUnmarshalMultiRows_def example_pair_decoded_def
          work_with_def new_WritePointsWork_def clear_IndexLists_def example_row_def)
  have h5: "len (Slice [example_row] 1) \<noteq> len (streamVars (work_with example_pair_frame))"
    by (simp add: work_with_def new_WritePointsWork_def)
  show ?thesis
    by (rule routing_mismatch_fails_before_write [OF example_pair_frame_decoded h2 h3 h4 h5])
qed

text \<open>
  C2 as stated fails: with no stream-shard ids in the frame the counts are not
  compared. The request \<open>example_frame\<close> decodes to one row, the work object has no
  stream variable, and \<open>WritePoints\<close> writes the row and returns no error.
\<close>

theorem mismatch_without_stream_ids_is_written:
  "WritePoints example_env (work_with example_frame) =
     Inr (None, (work_with example_frame)\<lparr>rows := Slice [example_row] 1\<rparr>,
          [AtomicAdd_WriteUnmarshalNs 1000,
           Storage_WriteRows (Some 0) [0x64, 0x62] [0x72, 0x70] 7 42 (Slice [example_row] 1)
             (Slice [9] 1)])
   \<and> len (rows ((work_with example_frame)\<lparr>rows := Slice [example_row] 1\<rparr>)) = 1
   \<and> len (streamVars ((work_with example_frame)\<lparr>rows := Slice [example_row] 1\<rparr>)) = 0"
  unfolding WritePoints_def example_decodePoints
  by (simp add: or_panic_def Let_def example_env_def example_decoded_def work_with_def
        new_WritePointsWork_def)

text \<open>
  C3. Whenever the decode returns, \<open>WritePoints\<close> returns; if the decode and the primary
  write succeeded and replication is on, what it returns is the result of the replica
  write (so the replica's error, when it fails); and the replica write is called exactly
  in that case: never when replication is off, the primary write failed or the decode
  failed.
\<close>

theorem WritePoints_replica_write:
  assumes "decodePoints env ww = Inr (r, ww1, tr)"
  shows "\<exists>e tr'. WritePoints env ww = Inr (e, ww1, tr')
     \<and> (err r = None
          \<and> WriteRows env (storage ww1) (db r) (rp r) (ptId r) (shard r) (rows ww1)
               (binaryRows r) = None
          \<and> IsReplication env
        \<longrightarrow> e = WriteRowsToSlave env (storage ww1) (rows ww1) (db r) (rp r) (ptId r) (shard r))
     \<and> (list_ex is_WriteRowsToSlave tr' \<longleftrightarrow>
          err r = None
          \<and> WriteRows env (storage ww1) (db r) (rp r) (ptId r) (shard r) (rows ww1)
               (binaryRows r) = None
          \<and> IsReplication env)"
  using assms decodePoints_trace_local [OF assms]
  by (auto simp: WritePoints_def or_panic_def Let_def list_all_iff list_ex_iff)

theorem WritePoints_replica_write_witness:
  "\<exists>e tr'. WritePoints example_replica_env (work_with example_frame)
       = Inr (e, (work_with example_frame)\<lparr>rows := Slice [example_row] 1\<rparr>, tr')
     \<and> e = Some (Foreign 7) \<and> list_ex is_WriteRowsToSlave tr'"
  using WritePoints_replica_write [OF example_replica_decodePoints]
  by (simp add: example_replica_env_def example_env_def example_decoded_def)

text \<open>
  C4, as amended. With a stream-shard id list of odd length, \<open>WriteStreamPoints\<close> never
  calls the stream engine's \<open>WriteRows\<close> and reports \<open>false\<close>. It returns an error of the
  unmarshal-points kind when a stream engine is attached or the decode failed. With no
  stream engine attached and a successful decode, the length of the list is not looked
  at: the result is that of the primary write.
\<close>

theorem odd_list_never_reaches_stream:
  assumes "decodePoints env ww = Inr (r, ww1, tr)"
    and "odd (len (streamShardIdList r))"
  shows "\<exists>e tr'. WriteStreamPoints env ww = Inr ((e, False), ww1, tr')
     \<and> \<not> list_ex is_Stream_WriteRows tr'
     \<and> (stream ww \<noteq> None \<or> err r \<noteq> None
          \<longrightarrow> (\<exists>x. e = Some (errno_NewError ErrUnmarshalPoints x)))
     \<and> (stream ww = None \<and> err r = None
          \<longrightarrow> e = WriteRows env (storage ww1) (db r) (rp r) (ptId r) (shard r) (rows ww1)
                     (binaryRows r))"
  using assms decodePoints_trace_local [OF assms(1)] decodePoints_keeps [OF assms(1)]
  by (auto simp: WriteStreamPoints_def or_panic_def Let_def list_all_iff list_ex_iff
        even_iff_mod_2_eq_zero)

theorem odd_list_never_reaches_stream_witness:
  "\<exists>e tr'. WriteStreamPoints example_env ((work_with example_odd_frame)\<lparr>stream := Some 0\<rparr>)
       = Inr ((e, False), (work_with example_odd_frame)\<lparr>stream := Some 0, rows := Slice [] 0\<rparr>,
              tr')
     \<and> \<not> list_ex is_Stream_WriteRows tr'
     \<and> (\<exists>x. e = Some (errno_NewError ErrUnmarshalPoints x))"
proof -
  have h: "odd (len (streamShardIdList example_odd_decoded))"
    by (simp add: example_odd_decoded_def)
  show ?thesis
    using odd_list_never_reaches_stream [OF example_odd_stream_decodePoints h]
    by (simp add: work_with_def)
qed

text \<open>
  C4 as stated fails: the request \<open>example_odd_frame\<close> has one stream-shard id, the
  work object has no stream engine, and \<open>WriteStreamPoints\<close> returns no error.
\<close>

theorem odd_list_without_stream_engine_succeeds:
  "decodePoints example_env (work_with example_odd_frame) =
     Inr (example_odd_decoded, (work_with example_odd_frame)\<lparr>rows := Slice [] 0\<rparr>,
          [AtomicAdd_WriteUnmarshalNs 1000])
   \<and> len (streamShardIdList example_odd_decoded) = 1
   \<and> WriteStreamPoints example_env (work_with example_odd_frame) =
     Inr ((None, False), (work_with example_odd_frame)\<lparr>rows := Slice [] 0\<rparr>,
          [AtomicAdd_WriteUnmarshalNs 1000,
           Storage_WriteRows (Some 0) [0x64, 0x62] [0x72, 0x70] 7 42 (Slice [] 0) (Slice [] 0)])"
  unfolding WriteStreamPoints_def example_odd_decodePoints
  by (simp add: or_panic_def Let_def example_env_def example_odd_decoded_def work_with_def
        new_WritePointsWork_def)

text \<open>
  C9. Whenever the decode returns, \<open>WriteStreamPoints\<close> returns, and it reports \<open>true\<close>
  exactly when the decode succeeded, the primary write returned no error, a stream
  engine is attached and the stream-shard id list is non-empty and of even length; the
  stream engine's \<open>WriteRows\<close> is called exactly when it reports \<open>true\<close>. So a failed
  primary write suppresses the stream dispatch.
\<close>

theorem stream_dispatch_exactly_when:
  assumes "decodePoints env ww = Inr (r, ww1, tr)"
  shows "\<exists>e inUse tr'. WriteStreamPoints env ww = Inr ((e, inUse), ww1, tr')
     \<and> (inUse \<longleftrightarrow>
          err r = None
          \<and> WriteRows env (storage ww1) (db r) (rp r) (ptId r) (shard r) (rows ww1)
               (binaryRows r) = None
          \<and> stream ww \<noteq> None
          \<and> 0 < len (streamShardIdList r) \<and> even (len (streamShardIdList r)))
     \<and> (list_ex is_Stream_WriteRows tr' \<longleftrightarrow> inUse)"
proof -
  note loc = decodePoints_trace_local [OF assms]
  note keep = decodePoints_keeps [OF assms]
  note ll = decodePoints_list_length [OF assms]
  show ?thesis
  proof (cases "even (len (streamShardIdList r))")
    case True
    with ll obtain m
      where m: "streamIdDstShardIdMap Map.empty (elems (streamShardIdList r)) = Inr m"
      using streamIdDstShardIdMap_even [of "elems (streamShardIdList r)" Map.empty] by auto
    show ?thesis
      using assms loc keep True m
      by (auto simp: WriteStreamPoints_def or_panic_def Let_def list_all_iff list_ex_iff
            even_iff_mod_2_eq_zero)
  next
    case False
    show ?thesis
      using assms loc keep False
      by (auto simp: WriteStreamPoints_def or_panic_def Let_def list_all_iff list_ex_iff
            even_iff_mod_2_eq_zero)
  qed
qed

theorem stream_dispatch_exactly_when_witness:
  "\<exists>e tr'. WriteStreamPoints example_env (example_stream_work example_pair_frame)
       = Inr ((e, True),
              (example_stream_work example_pair_frame)
                \<lparr>rows := Slice [\<lparr>StreamOnly = True, StreamId = 5, RowData = 9\<rparr>] 1\<rparr>,
              tr')
     \<and> list_ex is_Stream_WriteRows tr'"
proof -
  have w: "WriteRows example_env st dbn rpn pt sh rs bin = None" for st dbn rpn pt sh rs bin
    by (simp add: example_env_def)
  have s: "stream (example_stream_work example_pair_frame) \<noteq> None"
    by (simp add: example_stream_work_def)
  have l: "len (streamShardIdList example_pair_decoded) = 2" "err example_pair_decoded = None"
    by (simp_all add: example_pair_decoded_def)
  show ?thesis
    using stream_dispatch_exactly_when [OF example_pair_decodePoints]
    by (auto simp: w s l)
qed

section \<open>Release and checkout\<close>

lemma len_trunc [simp]: "len (trunc s) = 0"
  by (cases s) simp_all

lemma cap_trunc [simp]: "cap (trunc s) = cap s"
  by (cases s) simp_all

lemma trunc_eq_NilSlice [simp]: "trunc s = NilSlice \<longleftrightarrow> s = NilSlice"
  by (cases s) simp_all

lemma cleared_reset: "cleared (reset now now' ww)"
  by (simp add: cleared_def reset_def Let_def)

lemma cleared_new: "cleared new_WritePointsWork"
  by (simp add: cleared_def new_WritePointsWork_def)

text \<open>
  C6, as amended. On every release (\<open>PutWritePointsWork\<close> pools the work object as
  \<open>reset\<close> leaves it) the request buffer and the rows end with length 0, and the two
  are shrunk together or not at all: either both are dropped (set to nil, to be
  allocated again) and the shrink time is set to the clock, which happens only when
  more than 10 seconds have passed since the last shrink, or both keep their array and
  capacity and the shrink time stays. There is one trigger for the two buffers, not
  one each. How full a buffer must be for the drop is left open here.
\<close>

theorem reset_shrinks_both_or_neither:
  "writePointsWorkPool (PutWritePointsWork now now' ww g)
     = reset now now' ww # writePointsWorkPool g
   \<and> len (reqBuf (reset now now' ww)) = 0 \<and> len (rows (reset now now' ww)) = 0
   \<and> (reqBuf (reset now now' ww) = NilSlice \<and> rows (reset now now' ww) = NilSlice
        \<and> lastResetTime (reset now now' ww) = now'
        \<and> 10 < now - lastResetTime ww
      \<or> reqBuf (reset now now' ww) = trunc (reqBuf ww)
        \<and> cap (reqBuf (reset now now' ww)) = cap (reqBuf ww)
        \<and> rows (reset now now' ww) = trunc (rows ww)
        \<and> cap (rows (reset now now' ww)) = cap (rows ww)
        \<and> lastResetTime (reset now now' ww) = lastResetTime ww)"
proof (cases "(len (reqBuf ww) * 4 > cap (reqBuf ww) \<or> len (rows ww) * 4 > cap (rows ww))
                \<and> now - lastResetTime ww > 10")
  case True
  then have "reqBuf (reset now now' ww) = NilSlice \<and> rows (reset now now' ww) = NilSlice
      \<and> lastResetTime (reset now now' ww) = now'"
    by (simp add: reset_def Let_def)
  with True show ?thesis
    by (simp add: PutWritePointsWork_def)
next
  case False
  then have "reset now now' ww =
      ww\<lparr>tagpools := trunc (tagpools ww), fieldpools := trunc (fieldpools ww),
         indexKeypools := trunc (indexKeypools ww),
         indexOptionpools := trunc (indexOptionpools ww), storage := None, stream := None,
         rows := trunc (rows ww), reqBuf := trunc (reqBuf ww),
         streamVars := trunc (streamVars ww)\<rparr>"
    unfolding reset_def Let_def by (simp only: if_False)
  then show ?thesis
    by (simp add: PutWritePointsWork_def)
qed

theorem reset_shrinks_both_or_neither_witness:
  "\<not> (10 :: uint64) < 10 - lastResetTime example_used_work
   \<and> len (reqBuf (reset 10 12 example_used_work)) = 0
   \<and> len (rows (reset 10 12 example_used_work)) = 0
   \<and> cap (reqBuf (reset 10 12 example_used_work)) = 24
   \<and> cap (rows (reset 10 12 example_used_work)) = 1
   \<and> lastResetTime (reset 10 12 example_used_work) = 0"
proof -
  have t: "\<not> (10 :: uint64) < 10 - lastResetTime example_used_work"
    by (simp add: example_used_work_def work_with_def new_WritePointsWork_def)
  have c: "cap (reqBuf example_used_work) = 24" "cap (rows example_used_work) = 1"
    "lastResetTime example_used_work = 0"
    by (simp_all add: example_used_work_def work_with_def new_WritePointsWork_def
          example_frame_def)
  show ?thesis
    using reset_shrinks_both_or_neither [of 10 12 example_used_work empty_pools] t c
    by auto
qed

text \<open>
  C6 as stated fails: the two buffers have no triggers of their own. In
  \<open>example_mixed_work\<close> the request buffer has length 1 and capacity 1, so it has not
  grown to four times its last-used length, while the rows have length 1 and capacity
  8; released 100 seconds after the last shrink, the request buffer is dropped along
  with the rows.
\<close>

theorem reset_drops_buffers_together:
  "\<not> 4 * len (reqBuf example_mixed_work) \<le> cap (reqBuf example_mixed_work)
   \<and> 4 * len (rows example_mixed_work) \<le> cap (rows example_mixed_work)
   \<and> (10 :: uint64) \<le> 100 - lastResetTime example_mixed_work
   \<and> reqBuf (reset 100 100 example_mixed_work) = NilSlice
   \<and> rows (reset 100 100 example_mixed_work) = NilSlice"
  by (simp add: example_mixed_work_def new_WritePointsWork_def reset_def)

text \<open>
  The test of \<open>reset\<close> on how full the buffers are, run on a request buffer of length 1
  and capacity 4 with nil rows, 100 seconds after the last shrink: \<open>1 * 4 > 4\<close> does not
  hold and the buffer keeps its capacity.
\<close>

lemma reset_on_grown_buffer:
  "4 * len (reqBuf example_grown_work) \<le> cap (reqBuf example_grown_work)
   \<and> (10 :: uint64) < 100 - lastResetTime example_grown_work
   \<and> reqBuf (reset 100 100 example_grown_work) = Slice [1, 0, 0, 0] 0"
  by (simp add: example_grown_work_def new_WritePointsWork_def reset_def)

text \<open>
  C7, as amended. The pool is filled by \<open>PutWritePointsWork\<close> only; while every pooled
  object is cleared, the object checked out after a release (the one released, another
  pooled one, or a new one) is cleared: its pools, request buffer and stream variables
  have length 0 and its storage and stream references are nil; and the pool stays so.
  Nothing makes the pools non-nil.
\<close>

theorem checkout_after_release_cleared:
  assumes "list_all cleared (writePointsWorkPool g)"
  shows "cleared (fst (GetWritePointsWork k (PutWritePointsWork now now' ww g)))
       \<and> list_all cleared
           (writePointsWorkPool (snd (GetWritePointsWork k (PutWritePointsWork now now' ww g))))"
proof -
  let ?g = "PutWritePointsWork now now' ww g"
  have inv: "list_all cleared (writePointsWorkPool ?g)"
    using assms by (simp add: PutWritePointsWork_def cleared_reset)
  show ?thesis
  proof (cases "k < length (writePointsWorkPool ?g)")
    case True
    then have "writePointsWorkPool ?g ! k \<in> set (writePointsWorkPool ?g)"
      by simp
    with inv have c: "cleared (writePointsWorkPool ?g ! k)"
      by (simp add: list_all_iff)
    have "set (take k (writePointsWorkPool ?g) @ drop (Suc k) (writePointsWorkPool ?g))
            \<subseteq> set (writePointsWorkPool ?g)"
      by (auto dest: in_set_takeD in_set_dropD)
    with inv have "list_all cleared
        (take k (writePointsWorkPool ?g) @ drop (Suc k) (writePointsWorkPool ?g))"
      unfolding list_all_iff by blast
    with c True show ?thesis
      by (simp add: GetWritePointsWork_def)
  next
    case False
    with inv show ?thesis
      by (simp add: GetWritePointsWork_def cleared_new)
  qed
qed

theorem checkout_after_release_cleared_witness:
  "list_all cleared (writePointsWorkPool empty_pools)
   \<and> cleared (fst (GetWritePointsWork 0
                     (PutWritePointsWork 100 100 example_used_work empty_pools)))"
proof -
  have h: "list_all cleared (writePointsWorkPool empty_pools)"
    by (simp add: empty_pools_def)
  show ?thesis
    using checkout_after_release_cleared [OF h, of 0 100 100 example_used_work] h by simp
qed

text \<open>
  C7 as stated fails: the work object left by decoding \<open>example_frame\<close>, released 100
  seconds after its last shrink and checked out again, has nil rows.
\<close>

theorem checkout_after_release_nil_rows:
  "rows (fst (GetWritePointsWork 0
                (PutWritePointsWork 100 100 example_used_work empty_pools))) = NilSlice"
  by (simp add: GetWritePointsWork_def PutWritePointsWork_def empty_pools_def reset_def
        example_used_work_def work_with_def new_WritePointsWork_def)

section \<open>Round trip of the frame header\<close>

subsection \<open>The instance's codecs undo each other\<close>

lemma small_ucast_less: "v < 0x80 \<Longrightarrow> (ucast (v::uint64) :: byte) < 0x80"
  by (simp add: word_less_nat_alt unsigned_ucast_eq take_bit_eq_mod)

lemma small_ucast_id: "v < 0x80 \<Longrightarrow> (ucast (ucast (v::uint64) :: byte) :: uint64) = v"
  by (simp add: word_unat_eq_iff word_less_nat_alt unsigned_ucast_eq take_bit_eq_mod unat_mod)

lemma high_bit_not_less: "\<not> ((a :: byte) OR 0x80) < 0x80"
  by (simp add: not_less le_word_or1)

lemma groups_mask:
  "(ucast ((ucast (take_bit 7 (v::uint64)) OR push_bit 7 b :: byte) AND mask 7) :: uint64)
      OR push_bit 7 (drop_bit 7 v) = v"
proof (rule bit_word_eqI)
  fix n
  assume "n < LENGTH(64)"
  then show "bit ((ucast ((ucast (take_bit 7 v) OR push_bit 7 b :: byte) AND mask 7) :: uint64)
      OR push_bit 7 (drop_bit 7 v)) n = bit v n"
    by (cases "n < 7") (auto simp: bit_simps)
qed

lemma groups: 
  "(ucast ((ucast ((v::uint64) AND 0x7f) OR 0x80 :: byte) AND 0x7f) :: uint64)
      OR push_bit 7 (drop_bit 7 v) = v"
  using groups_mask [of v 1] by (simp add: take_bit_eq_mask mask_eq_exp_minus_1)

lemma get_put_uvarint: "get_uvarint (put_uvarint v @ rest) = Some (v, rest)"
proof (induction v rule: put_uvarint.induct)
  case (1 v)
  show ?case
  proof (cases "v < 0x80")
    case True
    then show ?thesis
      by (subst put_uvarint.simps) (simp add: small_ucast_less small_ucast_id)
  next
    case False
    then show ?thesis
      using "1.IH" [OF False]
      by (subst put_uvarint.simps) (simp add: high_bit_not_less groups)
  qed
qed

lemma get_uvarints_concat:
  "get_uvarints (length ids) (concat (map put_uvarint ids) @ rest) = Some (ids, rest)"
  by (induction ids) (simp_all add: get_put_uvarint)


lemma be_encode_Suc:
  "be_encode (Suc k) v = ucast (drop_bit (8 * k) v) # be_encode k v"
  by (simp add: be_encode_def)

lemma length_be_encode [simp]: "length (be_encode k v) = k"
  by (simp add: be_encode_def)

lemma be_step:
  fixes acc v :: "'a::len word"
  shows "push_bit (8 * k) (push_bit 8 acc OR ucast (ucast (drop_bit (8 * k) v) :: byte)) OR take_bit (8 * k) v
       = push_bit (8 * Suc k) acc OR take_bit (8 * Suc k) v"
  by (rule bit_word_eqI) (auto simp: bit_simps ac_simps)

lemma be_fold:
  fixes acc v :: "'a::len word"
  shows "foldl (\<lambda>acc b. push_bit 8 acc OR ucast b) acc (be_encode k v)
           = push_bit (8 * k) acc OR take_bit (8 * k) v"
proof (induction k arbitrary: acc)
  case 0
  then show ?case by (simp add: be_encode_def)
next
  case (Suc k)
  show ?case
    unfolding be_encode_Suc foldl_Cons Suc.IH be_step ..
qed

lemma be_roundtrip32: "be_decode (be_encode 4 v) = (v :: uint32)"
  by (simp add: be_decode_def be_fold take_bit_word_eq_self)

lemma be_roundtrip64: "be_decode (be_encode 8 v) = (v :: uint64)"
  by (simp add: be_decode_def be_fold take_bit_word_eq_self)

lemma example_UnmarshalVarUint64s_inverse:
  assumes "length (concat (map put_uvarint ids)) \<le> n"
    and "n \<le> length (concat (map put_uvarint ids)) + length rest"
  shows "example_UnmarshalVarUint64s (length ids) (Slice (concat (map put_uvarint ids) @ rest) n)
     = (ids, Slice rest (n - length (concat (map put_uvarint ids))), None)"
proof -
  let ?enc = "concat (map put_uvarint ids)"
  have e: "elems (Slice (?enc @ rest) n) = ?enc @ take (n - length ?enc) rest"
    using assms by simp
  have l: "n - length (take (n - length ?enc) rest) = length ?enc"
    using assms by (auto simp: min_def)
  show ?thesis
    unfolding example_UnmarshalVarUint64s_def e get_uvarints_concat
    using assms by (simp add: l)
qed

lemma example_inverse_codecs: "inverse_codecs example_env example_marshal"
  unfolding inverse_codecs_def
  by (simp add: example_env_def example_marshal_def be_roundtrip32 be_roundtrip64
        example_UnmarshalVarUint64s_inverse min_def)


lemma unat_length_byte: "n < 256 \<Longrightarrow> unat (of_nat n :: byte) = n"
  by (simp add: unat_of_nat)

lemma unat_length_uint32: "n < 2 ^ 32 \<Longrightarrow> unat (of_nat n :: uint32) = n"
  by (simp add: unat_of_nat)

lemma made_uint64s_all [simp]: "made_uint64s (length vs) vs = Slice vs (length vs)"
  by (simp add: made_uint64s_def)

lemma frame_roundtrip:
  assumes codec: "inverse_codecs env mar"
    and dbn: "length dbn < 256" and rpn: "length rpn < 256" and ids: "length ids < 2 ^ 32"
  shows "decodePoints_frame env
           (Slice (encode_header mar (PackageTypeFast env) dbn rpn pt sh ids @ payload @ spare)
              (length (encode_header mar (PackageTypeFast env) dbn rpn pt sh ids) + length payload))
         = Inr (\<lparr>db = dbn, rp = rpn, ptId = pt, shard = sh,
                 streamShardIdList = Slice ids (length ids),
                 binaryRows = Slice (payload @ spare) (length payload), err = None\<rparr>, [])"
proof -
  have l32 [simp]: "length (MarshalUint32 mar v) = 4" for v
    using codec by (simp add: inverse_codecs_def)
  have l64 [simp]: "length (MarshalUint64 mar v) = 8" for v
    using codec by (simp add: inverse_codecs_def)
  have d32: "4 \<le> n \<Longrightarrow> n \<le> 4 + length rest \<Longrightarrow>
      UnmarshalUint32 env (Slice (MarshalUint32 mar v @ rest) n) = v" for v rest n
    using codec by (simp add: inverse_codecs_def)
  have d64: "8 \<le> n \<Longrightarrow> n \<le> 8 + length rest \<Longrightarrow>
      UnmarshalUint64 env (Slice (MarshalUint64 mar v @ rest) n) = v" for v rest n
    using codec by (simp add: inverse_codecs_def)
  have dvar: "length (MarshalVarUint64s mar vs) \<le> n \<Longrightarrow>
      n \<le> length (MarshalVarUint64s mar vs) + length rest \<Longrightarrow>
      UnmarshalVarUint64s env (length vs) (Slice (MarshalVarUint64s mar vs @ rest) n)
        = (vs, Slice rest (n - length (MarshalVarUint64s mar vs)), None)" for vs rest n
    using codec by (simp add: inverse_codecs_def)
  show ?thesis
    using dbn rpn ids
    by (simp add: decodePoints_frame_def encode_header_def or_panic_def no_result_def
          unat_length_byte unat_length_uint32 d32 d64 dvar)
qed



lemma length_elems_proper: "proper s \<Longrightarrow> length (elems s) = len s"
  by (cases s) (simp_all add: proper_def)

lemma set_stream_vars_returns:
  "length rs = length vs \<Longrightarrow> list_all (\<lambda>v. v \<noteq> None) vs \<Longrightarrow> \<exists>rs'. set_stream_vars rs vs = Inr rs'"
proof (induction rs vs rule: set_stream_vars.induct)
  case (4 r rs v vs)
  then show ?case by (auto split: sum.splits)
qed simp_all

lemma example_pair_frame_encoded:
  "reqBuf (example_stream_work example_pair_frame) =
     Slice (encode_header example_marshal (PackageTypeFast example_env) [0x64, 0x62] [0x72, 0x70]
              7 42 [5, 300] @ [9] @ [])
       (length (encode_header example_marshal (PackageTypeFast example_env) [0x64, 0x62]
                  [0x72, 0x70] 7 42 [5, 300]) + length [9 :: byte])"
  by code_simp

lemma example_decoder_proper:
  "proper (fst (FastUnmarshalMultiRows example_env src rs tg fl io ky))"
  by (simp add: example_env_def example_FastUnmarshalMultiRows_def proper_def)

subsection \<open>Decoding an encoded frame\<close>

text \<open>
  C5, as amended. Take any header fields with names of at most 255 bytes and fewer than
  \<open>2^32\<close> stream-shard ids, any payload, and a request buffer that holds the encoded
  header followed by the payload (and any spare capacity), for integer encoders that
  the decoders of \<open>encoding\<close> undo. Then \<open>decodePoints\<close> returns the fields that were
  encoded: encoding the returned database name, retention policy name, partition id,
  shard id and stream-shard ids again gives the header bytes of the buffer, and the
  returned row payload is the rest of the buffer. This holds whatever the row decoder
  answers; the work object holds no nil stream variable, and its slices and the row
  decoder's are as Go makes them, so that the stream-variable loop runs through.
  The round trip is for frames made by the encoder, not for every frame that decodes.
\<close>

theorem decodePoints_header_roundtrip:
  assumes codec: "inverse_codecs env mar"
    and dbn: "length dbn < 256" and rpn: "length rpn < 256" and ids: "length ids < 2 ^ 32"
    and buf: "reqBuf ww =
        Slice (encode_header mar (PackageTypeFast env) dbn rpn pt sh ids @ payload @ spare)
          (length (encode_header mar (PackageTypeFast env) dbn rpn pt sh ids) + length payload)"
    and sv: "proper (streamVars ww)" "list_all (\<lambda>v. v \<noteq> None) (elems (streamVars ww))"
    and dec: "\<And>src rs tg fl io ky. proper (fst (FastUnmarshalMultiRows env src rs tg fl io ky))"
  shows "\<exists>r ww' tr. decodePoints env ww = Inr (r, ww', tr)
       \<and> db r = dbn \<and> rp r = rpn \<and> ptId r = pt \<and> shard r = sh
       \<and> elems (streamShardIdList r) = ids
       \<and> encode_header mar (PackageTypeFast env) (db r) (rp r) (ptId r) (shard r)
            (elems (streamShardIdList r))
          = take (len (reqBuf ww) - length payload) (elems (reqBuf ww))
       \<and> elems (binaryRows r) = payload"
proof -
  let ?h = "encode_header mar (PackageTypeFast env) dbn rpn pt sh ids"
  let ?r = "\<lparr>db = dbn, rp = rpn, ptId = pt, shard = sh,
             streamShardIdList = Slice ids (length ids),
             binaryRows = Slice (payload @ spare) (length payload), err = None\<rparr>"
  have fr: "decodePoints_frame env (reqBuf ww) = Inr (?r, [])"
    unfolding buf by (rule frame_roundtrip [OF codec dbn rpn ids])
  have hd: "take (len (reqBuf ww) - length payload) (elems (reqBuf ww)) = ?h"
    by (simp add: buf)
  obtain rows' tp fp iop ikp e where
    u: "FastUnmarshalMultiRows env (Slice (payload @ spare) (length payload)) (trunc (rows ww))
          (trunc (tagpools ww)) (trunc (fieldpools ww))
          (trunc (clear_IndexLists (indexOptionpools ww))) (trunc (indexKeypools ww))
        = (rows', tp, fp, iop, ikp, e)"
    by (metis prod_cases3)
  have pr: "proper rows'"
    using dec [of "Slice (payload @ spare) (length payload)" "trunc (rows ww)"
        "trunc (tagpools ww)" "trunc (fieldpools ww)"
        "trunc (clear_IndexLists (indexOptionpools ww))" "trunc (indexKeypools ww)"]
    by (simp add: u)
  have loop: "len rows' = len (streamVars ww) \<Longrightarrow>
      \<exists>rs. set_stream_vars (elems rows') (elems (streamVars ww)) = Inr rs"
    using set_stream_vars_returns [of "elems rows'" "elems (streamVars ww)"] sv pr
    by (simp add: length_elems_proper)
  show ?thesis
  proof (cases "e = None \<and> 0 < length ids \<and> len rows' = len (streamVars ww)")
    case True
    then obtain rs where "set_stream_vars (elems rows') (elems (streamVars ww)) = Inr rs"
      using loop by blast
    with True show ?thesis
      by (simp add: decodePoints_def fr u hd Let_def)
  next
    case False
    then show ?thesis
      by (auto simp: decodePoints_def fr u hd Let_def)
  qed
qed

theorem decodePoints_header_roundtrip_witness:
  "\<exists>r ww' tr. decodePoints example_env (example_stream_work example_pair_frame) = Inr (r, ww', tr)
     \<and> db r = [0x64, 0x62] \<and> rp r = [0x72, 0x70] \<and> ptId r = 7 \<and> shard r = 42
     \<and> elems (streamShardIdList r) = [5, 300]
     \<and> encode_header example_marshal (PackageTypeFast example_env) (db r) (rp r) (ptId r)
          (shard r) (elems (streamShardIdList r))
        = take (len (reqBuf (example_stream_work example_pair_frame)) - length [9 :: byte])
            (elems (reqBuf (example_stream_work example_pair_frame)))
     \<and> elems (binaryRows r) = [9]"
proof -
  have h2: "length [0x64, 0x62 :: byte] < 256" "length [0x72, 0x70 :: byte] < 256"
    "length [5, 300 :: uint64] < 2 ^ 32"
    by simp_all
  have h6: "proper (streamVars (example_stream_work example_pair_frame))"
    by (simp add: example_stream_work_def proper_def)
  have h7: "list_all (\<lambda>v. v \<noteq> None) (elems (streamVars (example_stream_work example_pair_frame)))"
    by (simp add: example_stream_work_def)
  show ?thesis
    by (rule decodePoints_header_roundtrip [OF example_inverse_codecs h2 example_pair_frame_encoded h6 h7
          example_decoder_proper])
qed

text \<open>
  C5 as stated fails: a frame that decodes need not be the one the encoder makes.
  \<open>example_noncanonical_frame\<close> is \<open>example_odd_frame\<close> with the stream-shard id 0
  written in two bytes, \<open>80 00\<close>. \<open>decodePoints\<close> returns no error and the id 0, and
  encoding the returned fields gives a header of 24 bytes, not the 25 of the frame.
\<close>

theorem noncanonical_frame_not_reproduced:
  "decodePoints example_env (work_with example_noncanonical_frame) =
     Inr (example_noncanonical_decoded,
          (work_with example_noncanonical_frame)\<lparr>rows := Slice [] 0\<rparr>,
          [AtomicAdd_WriteUnmarshalNs 1000])
   \<and> err example_noncanonical_decoded = None
   \<and> binaryRows example_noncanonical_decoded = Slice [] 0
   \<and> encode_header example_marshal (PackageTypeFast example_env)
        (db example_noncanonical_decoded) (rp example_noncanonical_decoded)
        (ptId example_noncanonical_decoded) (shard example_noncanonical_decoded)
        (elems (streamShardIdList example_noncanonical_decoded))
      = [1, 2, 0x64, 0x62, 2, 0x72, 0x70, 0, 0, 0, 7, 0, 0, 0, 0, 0, 0, 0, 42, 0, 0, 0, 1, 0]
   \<and> example_noncanonical_frame
      = [1, 2, 0x64, 0x62, 2, 0x72, 0x70, 0, 0, 0, 7, 0, 0, 0, 0, 0, 0, 0, 42, 0, 0, 0, 1,
         0x80, 0]"
  by code_simp

end
